theory Spec2Isabelle
  imports Complex_Main
begin

section \<open>Common vocabulary\<close>

text \<open>
  \<^verbatim>\<open>Real\<close> is modelled by the mathematical reals: rounding, infinities and NaN are outside the
  model, but for the overflow of \<^verbatim>\<open>std::pow\<close> in the error screen of the step attempt. A
  \<^verbatim>\<open>Vector\<close> is a list of reals, and a C++ \<^verbatim>\<open>int\<close> that is only assigned and read is an
  unbounded integer.
\<close>

type_synonym Real = real
type_synonym Vector = "real list"

text \<open>
  A C++ call either returns a value or throws. Either way the objects it was handed by
  reference keep whatever it wrote to them, so every model of a call gives the outcome
  together with the objects afterwards.
\<close>

datatype exn =
    ErrorCheck string string
  | OtherException string

datatype 'a Outcome =
    Returned 'a
  | Threw exn

section \<open>AbstractIntegratorRep: one DAE step attempt\<close>

text \<open>The nine read-only arguments of \<^verbatim>\<open>attemptDAEStep\<close> and \<^verbatim>\<open>attemptODEStep\<close>.\<close>

record StepStart =
  t0 :: Real
  t1 :: Real
  q0 :: Vector
  qdot0 :: Vector
  qdotdot0 :: Vector
  u0 :: Vector
  udot0 :: Vector
  z0 :: Vector
  zdot0 :: Vector

text \<open>The three arguments passed by non-const reference.\<close>

record StepRefs =
  yErrEst :: Vector
  errOrder :: int
  numIterations :: int

text \<open>
  A step function acts on the integrator object (of an arbitrary type \<open>'s\<close>, which holds the
  advanced state among other things) and on the three reference arguments.
\<close>

type_synonym 's StepFn = "'s \<Rightarrow> StepStart \<Rightarrow> StepRefs \<Rightarrow> bool Outcome \<times> 's \<times> StepRefs"

text \<open>
  The members that \<^verbatim>\<open>AbstractIntegratorRep\<close> inherits from \<^verbatim>\<open>IntegratorRep\<close> are declared in
  \<^verbatim>\<open>IntegratorRep.h\<close>, which is not part of the sources at hand, so they are parameters of the
  model: the const accessors read the object, \<^verbatim>\<open>calcWeightedRMSNorm\<close> is a function of its two
  vectors, and \<^verbatim>\<open>projectStateAndErrorEstimate\<close> works in place on the object (through
  \<^verbatim>\<open>updAdvancedState()\<close>) and on \<^verbatim>\<open>yErrEst\<close> and may throw.
  \<^verbatim>\<open>getAdvancedState_getYErr\<close> stands for \<^verbatim>\<open>getAdvancedState().getYErr()\<close>.
  The last two fields are the virtual-function table of the concrete integrator: \<open>None\<close>
  where the concrete class does not override the member.
\<close>

record 's IntegratorRep =
  calcWeightedRMSNorm :: "Vector \<Rightarrow> Vector \<Rightarrow> Real"
  getDynamicSystemWeights :: "'s \<Rightarrow> Vector"
  getAccuracyInUse :: "'s \<Rightarrow> Real"
  getConstraintToleranceInUse :: "'s \<Rightarrow> Real"
  getAdvancedState_getYErr :: "'s \<Rightarrow> Vector"
  getDynamicSystemOneOverTolerances :: "'s \<Rightarrow> Vector"
  userProjectEveryStep :: "'s \<Rightarrow> int"
  projectStateAndErrorEstimate :: "'s \<Rightarrow> Vector \<Rightarrow> unit Outcome \<times> 's \<times> Vector"
  attemptDAEStep_override :: "'s StepFn option"
  attemptODEStep_override :: "'s StepFn option"

text \<open>
  Modelled from the spec: the macro \<^verbatim>\<open>SimTK_ERRCHK_ALWAYS\<close> is defined in SimTKcommon, outside
  the sources at hand. The spec (section 7) calls a missing extension point a fatal
  misconfiguration that propagates to the caller as a hard failure, and its design notes
  speak of exception-based control flow; so a failed check throws an exception that carries
  the place and the message, and a check that holds falls through.
\<close>

definition SimTK_ERRCHK_ALWAYS :: "bool \<Rightarrow> string \<Rightarrow> string \<Rightarrow> unit Outcome" where
  "SimTK_ERRCHK_ALWAYS cond whereChecked msg =
     (if cond then Returned () else Threw (ErrorCheck whereChecked msg))"

text \<open>
  The body of \<^verbatim>\<open>AbstractIntegratorRep::attemptODEStep\<close>. The checked condition is
  \<^verbatim>\<open>!"Unimplemented virtual function"\<close>, the negation of a non-null pointer: false.
\<close>

definition AbstractIntegratorRep_attemptODEStep :: "'s StepFn" where
  "AbstractIntegratorRep_attemptODEStep this args refs =
     (case SimTK_ERRCHK_ALWAYS False
             ''AbstractIntegratorRep::attemptODEStep()''
             (''This virtual function was called but wasn't defined. Every'' @
              '' concrete integrator must override attemptODEStep() or override'' @
              '' attemptDAEStep() which calls it.'') of
        Threw e \<Rightarrow> (Threw e, this, refs)
      | Returned u \<Rightarrow> (Returned False, this, refs))"

text \<open>Virtual dispatch of \<^verbatim>\<open>attemptODEStep\<close>.\<close>

definition attemptODEStep :: "'s IntegratorRep \<Rightarrow> 's StepFn" where
  "attemptODEStep env =
     (case attemptODEStep_override env of
        None \<Rightarrow> AbstractIntegratorRep_attemptODEStep
      | Some f \<Rightarrow> f)"

text \<open>The local \<^verbatim>\<open>projectionLimit\<close> of \<^verbatim>\<open>attemptDAEStep\<close>.\<close>

definition projectionLimit :: "'s IntegratorRep \<Rightarrow> 's \<Rightarrow> Real" where
  "projectionLimit env this =
     max (2 * getConstraintToleranceInUse env this)
         (sqrt (getConstraintToleranceInUse env this))"

text \<open>The local \<^verbatim>\<open>consErrAfterODE\<close> of \<^verbatim>\<open>attemptDAEStep\<close>.\<close>

definition consErrAfterODE :: "'s IntegratorRep \<Rightarrow> 's \<Rightarrow> Real" where
  "consErrAfterODE env this =
     calcWeightedRMSNorm env (getAdvancedState_getYErr env this)
                             (getDynamicSystemOneOverTolerances env this)"

text \<open>
  The bound \<^verbatim>\<open>std::pow(Real(2),errOrder)*getAccuracyInUse()\<close> of the error screen. A power of
  two is exact in binary floating point, so up to \<^verbatim>\<open>errOrder = 1023\<close> the power is
  \<open>2 powr errOrder\<close>; from 1024 on it is beyond the largest double and \<^verbatim>\<open>std::pow\<close> gives
  +infinity. The product of +infinity with a positive accuracy is +infinity and with accuracy
  0 it is NaN: both make the comparison \<^verbatim>\<open>rmsErr > ...\<close> false, and the bound is \<open>None\<close>.
  With a negative accuracy the product is -infinity, which every norm exceeds; a norm is not
  negative, so it exceeds the exact product as well, and the bound is the exact product
  there: the two differ only on a negative norm value. Where the power is finite and the
  product is beyond the largest double, no double exceeds the exact product either. (A power
  below the smallest double, \<^verbatim>\<open>errOrder < -1074\<close>, is rounded to 0: rounding, outside the
  model.)
\<close>

definition errorBound :: "int \<Rightarrow> Real \<Rightarrow> Real option" where
  "errorBound p accuracyInUse =
     (if 1024 \<le> p \<and> 0 \<le> accuracyInUse then None
      else Some (2 powr real_of_int p * accuracyInUse))"

text \<open>
  The body of \<^verbatim>\<open>AbstractIntegratorRep::attemptDAEStep\<close>. Both \<^verbatim>\<open>catch (...)\<close> handlers return
  false and leave the object and the reference arguments as the throwing call left them.
\<close>

definition AbstractIntegratorRep_attemptDAEStep :: "'s IntegratorRep \<Rightarrow> 's StepFn" where
  "AbstractIntegratorRep_attemptDAEStep env this args refs =
     (case attemptODEStep env this args (refs\<lparr>numIterations := 1\<rparr>) of
        (Threw e, this1, refs1) \<Rightarrow> (Returned False, this1, refs1)
      | (Returned ODEconverged, this1, refs1) \<Rightarrow>
          if \<not> ODEconverged then (Returned False, this1, refs1)
          else
            let rmsErr = calcWeightedRMSNorm env (yErrEst refs1)
                           (getDynamicSystemWeights env this1)
            in
            if (case errorBound (errOrder refs1) (getAccuracyInUse env this1) of
                  None \<Rightarrow> False
                | Some bound \<Rightarrow> rmsErr > bound)
            then (Returned True, this1, refs1)
            else if consErrAfterODE env this1 > projectionLimit env this1
            then (Returned False, this1, refs1)
            else if userProjectEveryStep env this1 = 1
                    \<or> consErrAfterODE env this1 > getConstraintToleranceInUse env this1
            then
              (case projectStateAndErrorEstimate env this1 (yErrEst refs1) of
                 (Threw e, this2, yErrEst2) \<Rightarrow>
                   (Returned False, this2, refs1\<lparr>yErrEst := yErrEst2\<rparr>)
               | (Returned u, this2, yErrEst2) \<Rightarrow>
                   (Returned True, this2, refs1\<lparr>yErrEst := yErrEst2\<rparr>))
            else (Returned True, this1, refs1))"

text \<open>Virtual dispatch of \<^verbatim>\<open>attemptDAEStep\<close>, as the step driver calls it.\<close>

definition attemptDAEStep :: "'s IntegratorRep \<Rightarrow> 's StepFn" where
  "attemptDAEStep env =
     (case attemptDAEStep_override env of
        None \<Rightarrow> AbstractIntegratorRep_attemptDAEStep env
      | Some f \<Rightarrow> f)"

section \<open>A small concrete integrator\<close>

text \<open>
  A concrete integrator to run the step attempt on. Its object holds the tolerances, the
  constraint errors of the advanced state and a count of the projections done; its norm is
  the weighted root mean square; its ODE formula stores a given error estimate, error order
  and constraint error and leaves \<^verbatim>\<open>numIterations\<close> alone; its projector removes the
  constraint error, halves the error estimate and counts the call.
\<close>

definition weightedRMS :: "Vector \<Rightarrow> Vector \<Rightarrow> Real" where
  "weightedRMS v w =
     (if v = [] then 0
      else sqrt (sum_list (map2 (\<lambda>x y. (x * y) * (x * y)) v w) / real (length v)))"

record ExampleRep =
  accuracy :: Real
  consTol :: Real
  projectEveryStep :: int
  constraintErrors :: Vector
  projectorCalls :: nat

definition exampleODE ::
  "bool Outcome \<Rightarrow> Vector \<Rightarrow> int \<Rightarrow> Vector \<Rightarrow> ExampleRep StepFn" where
  "exampleODE out est ord cerr this args refs =
     (out, this\<lparr>constraintErrors := cerr\<rparr>, refs\<lparr>yErrEst := est, errOrder := ord\<rparr>)"

definition exampleProjector ::
  "unit Outcome \<Rightarrow> ExampleRep \<Rightarrow> Vector \<Rightarrow> unit Outcome \<times> ExampleRep \<times> Vector" where
  "exampleProjector out this est =
     (out, this\<lparr>constraintErrors := [0], projectorCalls := Suc (projectorCalls this)\<rparr>,
      map (\<lambda>x. x / 2) est)"

definition exampleIntegrator ::
  "ExampleRep StepFn option \<Rightarrow> unit Outcome \<Rightarrow> ExampleRep IntegratorRep" where
  "exampleIntegrator ode projOut =
     \<lparr> calcWeightedRMSNorm = weightedRMS,
       getDynamicSystemWeights = (\<lambda>this. [1]),
       getAccuracyInUse = accuracy,
       getConstraintToleranceInUse = consTol,
       getAdvancedState_getYErr = constraintErrors,
       getDynamicSystemOneOverTolerances = (\<lambda>this. [1]),
       userProjectEveryStep = projectEveryStep,
       projectStateAndErrorEstimate = exampleProjector projOut,
       attemptDAEStep_override = None,
       attemptODEStep_override = ode \<rparr>"

definition exampleRep :: "Real \<Rightarrow> int \<Rightarrow> ExampleRep" where
  "exampleRep tol every =
     \<lparr> accuracy = 1 / 1000, consTol = tol, projectEveryStep = every,
       constraintErrors = [], projectorCalls = 0 \<rparr>"

text \<open>
  An input with an error order beyond the range of \<^verbatim>\<open>std::pow\<close>: accuracy \<open>1e-300\<close>, and an
  ODE formula that converges with error estimate \<open>[1e300]\<close>, error order 1024 and constraint
  error \<open>3/2\<close>.
\<close>

definition overflowAccuracy :: Real where
  "overflowAccuracy = 1 / 10 ^ 300"

definition overflowEstimate :: Real where
  "overflowEstimate = 10 ^ 300"

definition overflowRep :: ExampleRep where
  "overflowRep =
     \<lparr> accuracy = overflowAccuracy, consTol = 1, projectEveryStep = 0,
       constraintErrors = [], projectorCalls = 0 \<rparr>"

definition overflowIntegrator :: "ExampleRep IntegratorRep" where
  "overflowIntegrator =
     exampleIntegrator (Some (exampleODE (Returned True) [overflowEstimate] 1024 [3 / 2]))
       (Returned ())"

definition exampleArgs :: StepStart where
  "exampleArgs = \<lparr> t0 = 0, t1 = 1 / 10, q0 = [1], qdot0 = [0], qdotdot0 = [0],
                    u0 = [0], udot0 = [0], z0 = [], zdot0 = [] \<rparr>"

definition exampleRefs :: StepRefs where
  "exampleRefs = \<lparr> yErrEst = [0], errOrder = 0, numIterations = 7 \<rparr>"

section \<open>Analytic geometry representations\<close>

text \<open>
  The owner handle is a pointer: \<open>None\<close> is the null pointer, \<open>Some a\<close> the address of an
  \<^verbatim>\<open>AnalyticGeometry\<close>. Inheritance is record extension; the field \<^verbatim>\<open>length\<close> of a line is
  written \<open>length'\<close>. The default constructors, which store NaN, are outside the model.
\<close>

type_synonym addr = nat

record AnalyticGeometryRep =
  myHandle :: "addr option"


record AnalyticCircleRep = AnalyticGeometryRep +
  r :: Real

record AnalyticSphereRep = AnalyticGeometryRep +
  r :: Real

definition Pi :: Real where
  "Pi = arccos (- 1)"

datatype AssertionFailed = AssertionFailed

text \<open>
  \<^verbatim>\<open>AnalyticCircleRep(const Real& rad) : r(rad) { assert(r > 0); }\<close>. The first argument
  tells whether \<^verbatim>\<open>NDEBUG\<close> is defined, which turns \<^verbatim>\<open>assert\<close> off.
\<close>

definition AnalyticCircleRep_ctor :: "bool \<Rightarrow> Real \<Rightarrow> AssertionFailed + AnalyticCircleRep" where
  "AnalyticCircleRep_ctor NDEBUG rad =
     (let this = \<lparr> myHandle = None, AnalyticCircleRep.r = rad \<rparr>
      in if NDEBUG \<or> AnalyticCircleRep.r this > 0 then Inr this else Inl AssertionFailed)"

text \<open>
  \<^verbatim>\<open>AnalyticSphereRep(const Real& rad) : r(r) { assert(r > 0); }\<close>. The member is
  initialised from itself, that is, from whatever its storage held before the construction;
  that indeterminate value is the argument \<open>indeterminate\<close>. The argument \<open>rad\<close> is not read.
\<close>

definition AnalyticSphereRep_ctor ::
  "bool \<Rightarrow> Real \<Rightarrow> Real \<Rightarrow> AssertionFailed + AnalyticSphereRep" where
  "AnalyticSphereRep_ctor NDEBUG indeterminate rad =
     (let this = \<lparr> myHandle = None, r = indeterminate \<rparr>
      in if NDEBUG \<or> r this > 0 then Inr this else Inl AssertionFailed)"

definition AnalyticCircleRep_getRadius :: "AnalyticCircleRep \<Rightarrow> Real" where
  "AnalyticCircleRep_getRadius this = AnalyticCircleRep.r this"

definition getRadius :: "AnalyticSphereRep \<Rightarrow> Real" where
  "getRadius this = r this"

definition calcVolume :: "AnalyticSphereRep \<Rightarrow> Real" where
  "calcVolume this = (4 / 3) * Pi * r this * r this * r this"










section \<open>Properties of the step attempt\<close>

subsection \<open>Auxiliary facts\<close>

text \<open>
  The projection limit at the tolerances of the table in the source, the fields of the
  integrator that the ODE formula, the residual and the limit do not read, and the values of
  the small concrete integrator.
\<close>

lemma max_sqrt_small:
  fixes y :: real
  assumes "0 \<le> y" and "c = y * y" and "2 * c \<le> y"
  shows "max (2 * c) (sqrt c) = y"
proof -
  have "sqrt c = y" using assms(1,2) by simp
  then show ?thesis using assms(3) by (simp add: max_def)
qed

lemma limit_1e12: "max (2 * (1 / 10 ^ 12)) (sqrt (1 / 10 ^ 12)) = (1 / 10 ^ 6 :: real)"
  by (rule max_sqrt_small) simp_all

lemma limit_1e4: "max (2 * (1 / 10 ^ 4)) (sqrt (1 / 10 ^ 4)) = (1 / 10 ^ 2 :: real)"
  by (rule max_sqrt_small) simp_all

lemma limit_1e2: "max (2 * (1 / 100)) (sqrt (1 / 100)) = (1 / 10 :: real)"
  by (rule max_sqrt_small) simp_all

lemma limit_half: "max (2 * (1 / 2)) (sqrt (1 / 2)) = (1 :: real)"
  by (simp add: max_def)

lemma limit_one: "max (2 * 1) (sqrt 1) = (2 :: real)"
  by (simp add: max_def)

lemma attemptODEStep_projector_upd:
  "attemptODEStep (env\<lparr>projectStateAndErrorEstimate := p\<rparr>) = attemptODEStep env"
  by (simp add: attemptODEStep_def)

lemma consErrAfterODE_projector_upd:
  "consErrAfterODE (env\<lparr>projectStateAndErrorEstimate := p\<rparr>) = consErrAfterODE env"
  by (simp add: consErrAfterODE_def fun_eq_iff)

lemma projectionLimit_projector_upd:
  "projectionLimit (env\<lparr>projectStateAndErrorEstimate := p\<rparr>) = projectionLimit env"
  by (simp add: projectionLimit_def fun_eq_iff)

lemma attemptODEStep_constraint_upd:
  "attemptODEStep (env\<lparr>getConstraintToleranceInUse := c, getAdvancedState_getYErr := g,
       getDynamicSystemOneOverTolerances := h, userProjectEveryStep := u,
       projectStateAndErrorEstimate := p\<rparr>) = attemptODEStep env"
  by (simp add: attemptODEStep_def)

lemma errorBound_not_exceeded:
  assumes "x \<le> 2 powr real_of_int p * a"
  shows "(case errorBound p a of None \<Rightarrow> False | Some bound \<Rightarrow> x > bound) = False"
  using assms by (simp add: errorBound_def)

lemma errorBound_exceeded:
  assumes "p \<le> 1023" and "x > 2 powr real_of_int p * a"
  shows "(case errorBound p a of None \<Rightarrow> False | Some bound \<Rightarrow> x > bound) = True"
  using assms by (simp add: errorBound_def)

lemma weightedRMS_single: "weightedRMS [x] [w] = \<bar>x * w\<bar>"
  by (simp add: weightedRMS_def)

lemma example_attemptODEStep:
  "attemptODEStep (exampleIntegrator (Some (exampleODE out est ord cerr)) po) this args refs
     = (out, this\<lparr>constraintErrors := cerr\<rparr>, refs\<lparr>yErrEst := est, errOrder := ord\<rparr>)"
  by (simp add: attemptODEStep_def exampleIntegrator_def exampleODE_def)

lemma example_rmsErr:
  "calcWeightedRMSNorm (exampleIntegrator ode po) [x]
     (getDynamicSystemWeights (exampleIntegrator ode po) this) = \<bar>x\<bar>"
  by (simp add: exampleIntegrator_def weightedRMS_single)

lemma example_consErrAfterODE:
  "consErrAfterODE (exampleIntegrator ode po) (this\<lparr>constraintErrors := [x]\<rparr>) = \<bar>x\<bar>"
  by (simp add: consErrAfterODE_def exampleIntegrator_def weightedRMS_single)

lemma example_projectionLimit_one:
  "projectionLimit (exampleIntegrator ode po) (exampleRep 1 every\<lparr>constraintErrors := cerr\<rparr>) = 2"
  by (simp add: projectionLimit_def exampleIntegrator_def exampleRep_def)

lemma example_accuracy:
  "getAccuracyInUse (exampleIntegrator ode po) (exampleRep tol every\<lparr>constraintErrors := cerr\<rparr>)
     = 1 / 1000"
  by (simp add: exampleIntegrator_def exampleRep_def)

lemma example_tolerance:
  "getConstraintToleranceInUse (exampleIntegrator ode po) (exampleRep tol every) = tol"
  by (simp add: exampleIntegrator_def exampleRep_def)

lemma example_projector_upd:
  "(exampleIntegrator ode po)\<lparr>projectStateAndErrorEstimate := exampleProjector po'\<rparr>
     = exampleIntegrator ode po'"
  by (simp add: exampleIntegrator_def)

subsection \<open>The claims\<close>

text \<open>
  Claim C1: a concrete integrator that overrides neither \<^verbatim>\<open>attemptDAEStep\<close> nor
  \<^verbatim>\<open>attemptODEStep\<close> should fail with an error that reaches the caller. The default
  \<^verbatim>\<open>attemptODEStep\<close> does throw, but the default \<^verbatim>\<open>attemptDAEStep\<close> catches what it throws:
  the step attempt returns false, an ordinary convergence failure.
\<close>

theorem C1_misconfiguration_swallowed:
  "attemptODEStep (env\<lparr>attemptDAEStep_override := None, attemptODEStep_override := None\<rparr>)
       this args refs
     = (Threw (ErrorCheck ''AbstractIntegratorRep::attemptODEStep()''
          (''This virtual function was called but wasn't defined. Every'' @
           '' concrete integrator must override attemptODEStep() or override'' @
           '' attemptDAEStep() which calls it.'')), this, refs)
   \<and> attemptDAEStep (env\<lparr>attemptDAEStep_override := None, attemptODEStep_override := None\<rparr>)
       this args refs
     = (Returned False, this, refs\<lparr>numIterations := 1\<rparr>)"
  by (simp add: attemptDAEStep_def AbstractIntegratorRep_attemptDAEStep_def attemptODEStep_def
        AbstractIntegratorRep_attemptODEStep_def SimTK_ERRCHK_ALWAYS_def)

text \<open>
  Claim C2: for every constraint tolerance \<open>c > 0\<close> the projection limit computed in
  \<^verbatim>\<open>attemptDAEStep\<close> is \<open>max (2 * c) (sqrt c)\<close>; it takes \<open>1e-12\<close> to \<open>1e-6\<close>, \<open>1e-4\<close> to \<open>1e-2\<close>,
  \<open>0.01\<close> to \<open>0.1\<close>, \<open>0.5\<close> to \<open>1\<close> and \<open>1\<close> to \<open>2\<close>.
\<close>

theorem C2_projectionLimit:
  assumes "getConstraintToleranceInUse env this = c" and "0 < c"
  shows "projectionLimit env this = max (2 * c) (sqrt c)
       \<and> (c = 1 / 10 ^ 12 \<longrightarrow> projectionLimit env this = 1 / 10 ^ 6)
       \<and> (c = 1 / 10 ^ 4 \<longrightarrow> projectionLimit env this = 1 / 10 ^ 2)
       \<and> (c = 1 / 100 \<longrightarrow> projectionLimit env this = 1 / 10)
       \<and> (c = 1 / 2 \<longrightarrow> projectionLimit env this = 1)
       \<and> (c = 1 \<longrightarrow> projectionLimit env this = 2)"
proof -
  have eq: "projectionLimit env this = max (2 * c) (sqrt c)"
    using assms(1) by (simp add: projectionLimit_def)
  show ?thesis
    unfolding eq using limit_1e12 limit_1e4 limit_1e2 limit_half limit_one by blast
qed

theorem C2_projectionLimit_witness:
  "projectionLimit (exampleIntegrator None (Returned ())) (exampleRep (1 / 10 ^ 12) 0) = 1 / 10 ^ 6
   \<and> projectionLimit (exampleIntegrator None (Returned ())) (exampleRep (1 / 10 ^ 4) 0) = 1 / 10 ^ 2
   \<and> projectionLimit (exampleIntegrator None (Returned ())) (exampleRep (1 / 100) 0) = 1 / 10
   \<and> projectionLimit (exampleIntegrator None (Returned ())) (exampleRep (1 / 2) 0) = 1
   \<and> projectionLimit (exampleIntegrator None (Returned ())) (exampleRep 1 0) = 2"
proof -
  let ?env = "exampleIntegrator None (Returned ())"
  have a: "projectionLimit ?env (exampleRep (1 / 10 ^ 12) 0) = 1 / 10 ^ 6"
    using C2_projectionLimit [OF example_tolerance, of "1 / 10 ^ 12" None "Returned ()" 0] by simp
  have b: "projectionLimit ?env (exampleRep (1 / 10 ^ 4) 0) = 1 / 10 ^ 2"
    using C2_projectionLimit [OF example_tolerance, of "1 / 10 ^ 4" None "Returned ()" 0] by simp
  have c: "projectionLimit ?env (exampleRep (1 / 100) 0) = 1 / 10"
    using C2_projectionLimit [OF example_tolerance, of "1 / 100" None "Returned ()" 0] by simp
  have d: "projectionLimit ?env (exampleRep (1 / 2) 0) = 1"
    using C2_projectionLimit [OF example_tolerance, of "1 / 2" None "Returned ()" 0] by simp
  have e: "projectionLimit ?env (exampleRep 1 0) = 2"
    using C2_projectionLimit [OF example_tolerance, of 1 None "Returned ()" 0] by simp
  show ?thesis using a b c d e by simp
qed

text \<open>
  Claim C3: when the ODE formula converges, the weighted RMS norm of the error estimate is at
  most \<open>2 ^ errOrder\<close> times the accuracy in use, and the weighted constraint residual after
  the ODE step exceeds the projection limit, \<^verbatim>\<open>attemptDAEStep\<close> returns false (a convergence
  failure), with the object and the reference arguments as the ODE formula left them.
\<close>

theorem C3_residual_beyond_limit:
  assumes "attemptODEStep env this args (refs\<lparr>numIterations := 1\<rparr>) = (Returned True, this1, refs1)"
    and "calcWeightedRMSNorm env (yErrEst refs1) (getDynamicSystemWeights env this1)
           \<le> 2 powr real_of_int (errOrder refs1) * getAccuracyInUse env this1"
    and "consErrAfterODE env this1 > projectionLimit env this1"
  shows "AbstractIntegratorRep_attemptDAEStep env this args refs = (Returned False, this1, refs1)"
  using assms
  by (simp add: AbstractIntegratorRep_attemptDAEStep_def errorBound_not_exceeded)

theorem C3_residual_beyond_limit_witness:
  "AbstractIntegratorRep_attemptDAEStep
     (exampleIntegrator (Some (exampleODE (Returned True) [1 / 1000] 2 [3])) (Returned ()))
     (exampleRep 1 0) exampleArgs exampleRefs
   = (Returned False,
      \<lparr> accuracy = 1 / 1000, consTol = 1, projectEveryStep = 0,
        constraintErrors = [3], projectorCalls = 0 \<rparr>,
      \<lparr> yErrEst = [1 / 1000], errOrder = 2, numIterations = 1 \<rparr>)"
proof -
  let ?env = "exampleIntegrator (Some (exampleODE (Returned True) [1 / 1000] 2 [3])) (Returned ())"
  let ?this1 = "exampleRep 1 0\<lparr>constraintErrors := [3]\<rparr>"
  let ?refs1 = "exampleRefs\<lparr>numIterations := 1, yErrEst := [1 / 1000], errOrder := 2\<rparr>"
  have ode: "attemptODEStep ?env (exampleRep 1 0) exampleArgs (exampleRefs\<lparr>numIterations := 1\<rparr>)
               = (Returned True, ?this1, ?refs1)"
    by (simp add: example_attemptODEStep)
  have screen: "calcWeightedRMSNorm ?env (yErrEst ?refs1) (getDynamicSystemWeights ?env ?this1)
                  \<le> 2 powr real_of_int (errOrder ?refs1) * getAccuracyInUse ?env ?this1"
    by (simp add: example_rmsErr example_accuracy)
  have residual: "consErrAfterODE ?env ?this1 > projectionLimit ?env ?this1"
    by (simp add: example_consErrAfterODE example_projectionLimit_one)
  show ?thesis
    using C3_residual_beyond_limit [OF ode screen residual]
    by (simp add: exampleRep_def exampleRefs_def)
qed

text \<open>
  Claim C4: when the ODE formula reports non-convergence, \<^verbatim>\<open>attemptDAEStep\<close> returns false at
  once and the constraint projector is not invoked: whatever the projector \<open>p\<close> is, the object
  (the advanced state in it) and the reference arguments (\<^verbatim>\<open>yErrEst\<close> among them) come back as
  the ODE formula left them.
\<close>

theorem C4_ode_nonconvergence:
  assumes "attemptODEStep env this args (refs\<lparr>numIterations := 1\<rparr>) = (Returned False, this1, refs1)"
  shows "AbstractIntegratorRep_attemptDAEStep (env\<lparr>projectStateAndErrorEstimate := p\<rparr>)
           this args refs
         = (Returned False, this1, refs1)"
  using assms
  by (simp add: AbstractIntegratorRep_attemptDAEStep_def attemptODEStep_projector_upd)

theorem C4_ode_nonconvergence_witness:
  "AbstractIntegratorRep_attemptDAEStep
     (exampleIntegrator (Some (exampleODE (Returned False) [1 / 1000] 2 [3 / 2])) (Returned ()))
     (exampleRep 1 1) exampleArgs exampleRefs
   = (Returned False,
      \<lparr> accuracy = 1 / 1000, consTol = 1, projectEveryStep = 1,
        constraintErrors = [3 / 2], projectorCalls = 0 \<rparr>,
      \<lparr> yErrEst = [1 / 1000], errOrder = 2, numIterations = 1 \<rparr>)"
proof -
  let ?env = "exampleIntegrator (Some (exampleODE (Returned False) [1 / 1000] 2 [3 / 2])) (Returned ())"
  let ?this1 = "exampleRep 1 1\<lparr>constraintErrors := [3 / 2]\<rparr>"
  let ?refs1 = "exampleRefs\<lparr>numIterations := 1, yErrEst := [1 / 1000], errOrder := 2\<rparr>"
  have ode: "attemptODEStep ?env (exampleRep 1 1) exampleArgs (exampleRefs\<lparr>numIterations := 1\<rparr>)
               = (Returned False, ?this1, ?refs1)"
    by (simp add: example_attemptODEStep)
  show ?thesis
    using C4_ode_nonconvergence [OF ode, where p = "exampleProjector (Returned ())"]
    by (simp add: example_projector_upd exampleRep_def exampleRefs_def)
qed

text \<open>
  Claim C5, with the bound it needs: when the ODE formula converges, \<^verbatim>\<open>errOrder\<close> is at most
  1023 (so that \<^verbatim>\<open>std::pow(Real(2),errOrder)\<close> is finite) and the weighted RMS norm of the error
  estimate strictly exceeds \<open>2 ^ errOrder\<close> times the accuracy in use, \<^verbatim>\<open>attemptDAEStep\<close>
  returns true with the object and the reference arguments as the ODE formula left them,
  whatever the constraint tolerance \<open>c\<close>, the constraint errors \<open>g\<close>, their tolerances \<open>h\<close>,
  the project-every-step setting \<open>u\<close> and the projector \<open>p\<close> are: the residual is neither
  computed nor checked and the projector is not invoked.
\<close>

theorem C5_error_screen_fails:
  assumes "attemptODEStep env this args (refs\<lparr>numIterations := 1\<rparr>) = (Returned True, this1, refs1)"
    and "errOrder refs1 \<le> 1023"
    and "calcWeightedRMSNorm env (yErrEst refs1) (getDynamicSystemWeights env this1)
           > 2 powr real_of_int (errOrder refs1) * getAccuracyInUse env this1"
  shows "AbstractIntegratorRep_attemptDAEStep
           (env\<lparr>getConstraintToleranceInUse := c, getAdvancedState_getYErr := g,
                getDynamicSystemOneOverTolerances := h, userProjectEveryStep := u,
                projectStateAndErrorEstimate := p\<rparr>) this args refs
         = (Returned True, this1, refs1)"
  using assms
  by (simp add: AbstractIntegratorRep_attemptDAEStep_def attemptODEStep_constraint_upd
        errorBound_exceeded)

theorem C5_error_screen_fails_witness:
  "AbstractIntegratorRep_attemptDAEStep
     (exampleIntegrator (Some (exampleODE (Returned True) [1] 2 [3 / 2])) (Returned ()))
     (exampleRep 1 1) exampleArgs exampleRefs
   = (Returned True,
      \<lparr> accuracy = 1 / 1000, consTol = 1, projectEveryStep = 1,
        constraintErrors = [3 / 2], projectorCalls = 0 \<rparr>,
      \<lparr> yErrEst = [1], errOrder = 2, numIterations = 1 \<rparr>)"
proof -
  let ?env = "exampleIntegrator (Some (exampleODE (Returned True) [1] 2 [3 / 2])) (Returned ())"
  let ?this1 = "exampleRep 1 1\<lparr>constraintErrors := [3 / 2]\<rparr>"
  let ?refs1 = "exampleRefs\<lparr>numIterations := 1, yErrEst := [1], errOrder := 2\<rparr>"
  have ode: "attemptODEStep ?env (exampleRep 1 1) exampleArgs (exampleRefs\<lparr>numIterations := 1\<rparr>)
               = (Returned True, ?this1, ?refs1)"
    by (simp add: example_attemptODEStep)
  have order: "errOrder ?refs1 \<le> 1023"
    by simp
  have screen: "calcWeightedRMSNorm ?env (yErrEst ?refs1) (getDynamicSystemWeights ?env ?this1)
                  > 2 powr real_of_int (errOrder ?refs1) * getAccuracyInUse ?env ?this1"
    by (simp add: example_rmsErr example_accuracy)
  have same: "?env\<lparr>getConstraintToleranceInUse := consTol,
                   getAdvancedState_getYErr := constraintErrors,
                   getDynamicSystemOneOverTolerances := (\<lambda>this. [1]),
                   userProjectEveryStep := projectEveryStep,
                   projectStateAndErrorEstimate := exampleProjector (Returned ())\<rparr> = ?env"
    by (simp add: exampleIntegrator_def)
  show ?thesis
    using C5_error_screen_fails [OF ode order screen, where c = consTol and g = constraintErrors
            and h = "\<lambda>this. [1]" and u = projectEveryStep
            and p = "exampleProjector (Returned ())"]
    by (simp add: same exampleRep_def exampleRefs_def)
qed

text \<open>
  Without the bound the statement of C5 fails. With accuracy \<open>1e-300\<close>, an ODE formula that
  converges with error estimate \<open>[1e300]\<close>, \<^verbatim>\<open>errOrder = 1024\<close> and constraint error \<open>3/2\<close>
  (tolerance 1, projection limit 2), the norm \<open>1e300\<close> strictly exceeds
  \<open>2 ^ 1024 * 1e-300\<close>, yet \<^verbatim>\<open>std::pow\<close> overflows, the screen does not return, and the step
  attempt goes on to check the residual and to invoke the projector, which halves the error
  estimate.
\<close>

lemma overflow_norm_exceeds: "(2::real) ^ 1024 * (1 / 10 ^ 300) < 10 ^ 300"
proof -
  have small: "(2::real) ^ 10 \<le> 10 ^ 4" and rest: "(2::real) ^ 4 \<le> 10 ^ 2"
    by simp_all
  have e1: "(1024::nat) = 10 * 102 + 4" and e2: "4 * 102 + 2 = (410::nat)"
    and e3: "(410::nat) < 300 + 300"
    by simp_all
  have pos: "(0::real) < 10 ^ 300"
    by (rule zero_less_power) simp
  have "(2::real) ^ 1024 = 2 ^ (10 * 102 + 4)"
    by (simp only: e1 [symmetric])
  also have "\<dots> = (2 ^ 10) ^ 102 * 2 ^ 4"
    by (simp only: power_add power_mult)
  also have "\<dots> \<le> (10 ^ 4) ^ 102 * 10 ^ 2"
  proof (rule mult_mono)
    show "((2::real) ^ 10) ^ 102 \<le> (10 ^ 4) ^ 102"
      by (rule power_mono [OF small]) simp
    show "(2::real) ^ 4 \<le> 10 ^ 2"
      by (rule rest)
    show "(0::real) \<le> (10 ^ 4) ^ 102"
      by (rule zero_le_power) simp
    show "(0::real) \<le> 2 ^ 4"
      by simp
  qed
  also have "\<dots> = (10::real) ^ (4 * 102 + 2)"
    by (simp only: power_add power_mult)
  also have "\<dots> = (10::real) ^ 410"
    by (simp only: e2)
  also have "\<dots> < (10::real) ^ (300 + 300)"
    by (rule power_strict_increasing [OF e3]) simp
  also have "\<dots> = (10::real) ^ 300 * 10 ^ 300"
    by (rule power_add)
  finally have "(2::real) ^ 1024 / 10 ^ 300 < 10 ^ 300"
    by (rule mult_imp_div_pos_less [OF pos])
  then show ?thesis
    by (simp only: times_divide_eq_right mult_1_right)
qed

lemma overflow_power: "(2::real) powr real_of_int 1024 = 2 ^ 1024"
proof -
  have cast: "real_of_int 1024 = real (1024::nat)"
    by simp
  show ?thesis
    unfolding cast by (rule powr_realpow) simp
qed

lemma overflow_values:
  "0 < overflowAccuracy" "0 < overflowEstimate"
  "2 powr real_of_int 1024 * overflowAccuracy < overflowEstimate"
proof -
  have pos: "(0::real) < 10 ^ 300"
    by (rule zero_less_power) simp
  show "0 < overflowAccuracy"
    unfolding overflowAccuracy_def by (rule divide_pos_pos [OF zero_less_one pos])
  show "0 < overflowEstimate"
    unfolding overflowEstimate_def by (rule pos)
  show "2 powr real_of_int 1024 * overflowAccuracy < overflowEstimate"
    unfolding overflowAccuracy_def overflowEstimate_def overflow_power
    by (rule overflow_norm_exceeds)
qed

theorem C5_overflow_counterexample:
  "overflowAccuracy = 1 / 10 ^ 300 \<and> overflowEstimate = 10 ^ 300
   \<and> attemptODEStep overflowIntegrator overflowRep exampleArgs (exampleRefs\<lparr>numIterations := 1\<rparr>)
     = (Returned True,
        \<lparr> accuracy = overflowAccuracy, consTol = 1, projectEveryStep = 0,
          constraintErrors = [3 / 2], projectorCalls = 0 \<rparr>,
        \<lparr> yErrEst = [overflowEstimate], errOrder = 1024, numIterations = 1 \<rparr>)
   \<and> calcWeightedRMSNorm overflowIntegrator [overflowEstimate]
       (getDynamicSystemWeights overflowIntegrator
          \<lparr> accuracy = overflowAccuracy, consTol = 1, projectEveryStep = 0,
            constraintErrors = [3 / 2], projectorCalls = 0 \<rparr>)
     > 2 powr real_of_int 1024
       * getAccuracyInUse overflowIntegrator
           \<lparr> accuracy = overflowAccuracy, consTol = 1, projectEveryStep = 0,
             constraintErrors = [3 / 2], projectorCalls = 0 \<rparr>
   \<and> AbstractIntegratorRep_attemptDAEStep overflowIntegrator overflowRep exampleArgs exampleRefs
     = (Returned True,
        \<lparr> accuracy = overflowAccuracy, consTol = 1, projectEveryStep = 0,
          constraintErrors = [0], projectorCalls = 1 \<rparr>,
        \<lparr> yErrEst = [overflowEstimate / 2], errOrder = 1024, numIterations = 1 \<rparr>)
   \<and> AbstractIntegratorRep_attemptDAEStep overflowIntegrator overflowRep exampleArgs exampleRefs
     \<noteq> (Returned True,
        \<lparr> accuracy = overflowAccuracy, consTol = 1, projectEveryStep = 0,
          constraintErrors = [3 / 2], projectorCalls = 0 \<rparr>,
        \<lparr> yErrEst = [overflowEstimate], errOrder = 1024, numIterations = 1 \<rparr>)"
proof -
  have ode: "attemptODEStep overflowIntegrator overflowRep exampleArgs
               (exampleRefs\<lparr>numIterations := 1\<rparr>)
     = (Returned True,
        \<lparr> accuracy = overflowAccuracy, consTol = 1, projectEveryStep = 0,
          constraintErrors = [3 / 2], projectorCalls = 0 \<rparr>,
        \<lparr> yErrEst = [overflowEstimate], errOrder = 1024, numIterations = 1 \<rparr>)"
    by (simp add: overflowIntegrator_def example_attemptODEStep overflowRep_def exampleRefs_def)
  have exceeds: "calcWeightedRMSNorm overflowIntegrator [overflowEstimate]
       (getDynamicSystemWeights overflowIntegrator
          \<lparr> accuracy = overflowAccuracy, consTol = 1, projectEveryStep = 0,
            constraintErrors = [3 / 2], projectorCalls = 0 \<rparr>)
     > 2 powr real_of_int 1024
       * getAccuracyInUse overflowIntegrator
           \<lparr> accuracy = overflowAccuracy, consTol = 1, projectEveryStep = 0,
             constraintErrors = [3 / 2], projectorCalls = 0 \<rparr>"
    using overflow_values
    by (simp only: overflowIntegrator_def example_rmsErr abs_of_pos)
      (simp only: exampleIntegrator_def IntegratorRep.simps ExampleRep.simps)
  have bound: "errorBound 1024 overflowAccuracy = None"
    using overflow_values(1) by (simp add: errorBound_def)
  have step: "AbstractIntegratorRep_attemptDAEStep overflowIntegrator overflowRep
                exampleArgs exampleRefs
     = (Returned True,
        \<lparr> accuracy = overflowAccuracy, consTol = 1, projectEveryStep = 0,
          constraintErrors = [0], projectorCalls = 1 \<rparr>,
        \<lparr> yErrEst = [overflowEstimate / 2], errOrder = 1024, numIterations = 1 \<rparr>)"
    using ode
    by (simp add: AbstractIntegratorRep_attemptDAEStep_def overflowIntegrator_def bound
          consErrAfterODE_def projectionLimit_def weightedRMS_single exampleIntegrator_def
          exampleProjector_def)
  have differs: "AbstractIntegratorRep_attemptDAEStep overflowIntegrator overflowRep
                   exampleArgs exampleRefs
     \<noteq> (Returned True,
        \<lparr> accuracy = overflowAccuracy, consTol = 1, projectEveryStep = 0,
          constraintErrors = [3 / 2], projectorCalls = 0 \<rparr>,
        \<lparr> yErrEst = [overflowEstimate], errOrder = 1024, numIterations = 1 \<rparr>)"
    unfolding step by simp
  show ?thesis
    using overflowAccuracy_def overflowEstimate_def ode exceeds step differs by blast
qed

text \<open>
  Claim C6: when the step attempt reaches the projection decision (the ODE formula converged,
  the error-norm screen passed, the constraint residual is at most the projection limit), the
  projector \<open>p\<close> is invoked, once and on the object and error estimate the ODE formula left,
  exactly when project-every-step is requested or the residual strictly exceeds the constraint
  tolerance in use; otherwise the result does not depend on \<open>p\<close>. When the invoked projector
  throws, \<^verbatim>\<open>attemptDAEStep\<close> returns false; when it returns, true.
\<close>

theorem C6_projection_decision:
  assumes "attemptODEStep env this args (refs\<lparr>numIterations := 1\<rparr>) = (Returned True, this1, refs1)"
    and "calcWeightedRMSNorm env (yErrEst refs1) (getDynamicSystemWeights env this1)
           \<le> 2 powr real_of_int (errOrder refs1) * getAccuracyInUse env this1"
    and "consErrAfterODE env this1 \<le> projectionLimit env this1"
  shows "AbstractIntegratorRep_attemptDAEStep (env\<lparr>projectStateAndErrorEstimate := p\<rparr>)
           this args refs =
           (if userProjectEveryStep env this1 = 1
               \<or> consErrAfterODE env this1 > getConstraintToleranceInUse env this1
            then (case p this1 (yErrEst refs1) of
                    (Returned u, this2, yErrEst2) \<Rightarrow>
                      (Returned True, this2, refs1\<lparr>yErrEst := yErrEst2\<rparr>)
                  | (Threw e, this2, yErrEst2) \<Rightarrow>
                      (Returned False, this2, refs1\<lparr>yErrEst := yErrEst2\<rparr>))
            else (Returned True, this1, refs1))"
  using assms
  by (simp add: AbstractIntegratorRep_attemptDAEStep_def attemptODEStep_projector_upd
        consErrAfterODE_projector_upd projectionLimit_projector_upd errorBound_not_exceeded
        split: prod.splits Outcome.splits)

lemma example_decision_reached:
  fixes x :: real
  assumes "\<bar>x\<bar> \<le> 2"
  shows "attemptODEStep (exampleIntegrator (Some (exampleODE (Returned True) [1 / 1000] 2 [x])) po)
           (exampleRep 1 every) exampleArgs (exampleRefs\<lparr>numIterations := 1\<rparr>)
         = (Returned True, exampleRep 1 every\<lparr>constraintErrors := [x]\<rparr>,
            exampleRefs\<lparr>numIterations := 1, yErrEst := [1 / 1000], errOrder := 2\<rparr>)"
    and "calcWeightedRMSNorm (exampleIntegrator (Some (exampleODE (Returned True) [1 / 1000] 2 [x])) po)
           (yErrEst (exampleRefs\<lparr>numIterations := 1, yErrEst := [1 / 1000], errOrder := 2\<rparr>))
           (getDynamicSystemWeights
              (exampleIntegrator (Some (exampleODE (Returned True) [1 / 1000] 2 [x])) po)
              (exampleRep 1 every\<lparr>constraintErrors := [x]\<rparr>))
         \<le> 2 powr real_of_int
                  (errOrder (exampleRefs\<lparr>numIterations := 1, yErrEst := [1 / 1000], errOrder := 2\<rparr>))
             * getAccuracyInUse
                 (exampleIntegrator (Some (exampleODE (Returned True) [1 / 1000] 2 [x])) po)
                 (exampleRep 1 every\<lparr>constraintErrors := [x]\<rparr>)"
    and "consErrAfterODE (exampleIntegrator (Some (exampleODE (Returned True) [1 / 1000] 2 [x])) po)
           (exampleRep 1 every\<lparr>constraintErrors := [x]\<rparr>)
         \<le> projectionLimit
              (exampleIntegrator (Some (exampleODE (Returned True) [1 / 1000] 2 [x])) po)
              (exampleRep 1 every\<lparr>constraintErrors := [x]\<rparr>)"
  using assms
  by (simp_all add: example_attemptODEStep example_rmsErr example_accuracy
        example_consErrAfterODE example_projectionLimit_one)

theorem C6_projection_decision_witness:
  "AbstractIntegratorRep_attemptDAEStep
     (exampleIntegrator (Some (exampleODE (Returned True) [1 / 1000] 2 [3 / 2])) (Returned ()))
     (exampleRep 1 0) exampleArgs exampleRefs
   = (Returned True,
      \<lparr> accuracy = 1 / 1000, consTol = 1, projectEveryStep = 0,
        constraintErrors = [0], projectorCalls = 1 \<rparr>,
      \<lparr> yErrEst = [1 / 2000], errOrder = 2, numIterations = 1 \<rparr>)
   \<and> AbstractIntegratorRep_attemptDAEStep
     (exampleIntegrator (Some (exampleODE (Returned True) [1 / 1000] 2 [3 / 2]))
        (Threw (OtherException ''projection failed'')))
     (exampleRep 1 0) exampleArgs exampleRefs
   = (Returned False,
      \<lparr> accuracy = 1 / 1000, consTol = 1, projectEveryStep = 0,
        constraintErrors = [0], projectorCalls = 1 \<rparr>,
      \<lparr> yErrEst = [1 / 2000], errOrder = 2, numIterations = 1 \<rparr>)
   \<and> AbstractIntegratorRep_attemptDAEStep
     (exampleIntegrator (Some (exampleODE (Returned True) [1 / 1000] 2 [1 / 2])) (Returned ()))
     (exampleRep 1 1) exampleArgs exampleRefs
   = (Returned True,
      \<lparr> accuracy = 1 / 1000, consTol = 1, projectEveryStep = 1,
        constraintErrors = [0], projectorCalls = 1 \<rparr>,
      \<lparr> yErrEst = [1 / 2000], errOrder = 2, numIterations = 1 \<rparr>)
   \<and> AbstractIntegratorRep_attemptDAEStep
     (exampleIntegrator (Some (exampleODE (Returned True) [1 / 1000] 2 [1 / 2])) (Returned ()))
     (exampleRep 1 0) exampleArgs exampleRefs
   = (Returned True,
      \<lparr> accuracy = 1 / 1000, consTol = 1, projectEveryStep = 0,
        constraintErrors = [1 / 2], projectorCalls = 0 \<rparr>,
      \<lparr> yErrEst = [1 / 1000], errOrder = 2, numIterations = 1 \<rparr>)"
proof -
  have big: "\<bar>3 / 2 :: real\<bar> \<le> 2" and small: "\<bar>1 / 2 :: real\<bar> \<le> 2"
    by simp_all
  note evals = exampleIntegrator_def consErrAfterODE_def weightedRMS_single
    exampleProjector_def exampleRep_def exampleRefs_def
  have projected: "AbstractIntegratorRep_attemptDAEStep
     (exampleIntegrator (Some (exampleODE (Returned True) [1 / 1000] 2 [3 / 2])) (Returned ()))
     (exampleRep 1 0) exampleArgs exampleRefs
   = (Returned True,
      \<lparr> accuracy = 1 / 1000, consTol = 1, projectEveryStep = 0,
        constraintErrors = [0], projectorCalls = 1 \<rparr>,
      \<lparr> yErrEst = [1 / 2000], errOrder = 2, numIterations = 1 \<rparr>)"
    using C6_projection_decision [OF example_decision_reached [OF big],
            where p = "exampleProjector (Returned ())" and po1 = "Returned ()" and every1 = 0]
    by (simp add: evals)
  have failed: "AbstractIntegratorRep_attemptDAEStep
     (exampleIntegrator (Some (exampleODE (Returned True) [1 / 1000] 2 [3 / 2]))
        (Threw (OtherException ''projection failed'')))
     (exampleRep 1 0) exampleArgs exampleRefs
   = (Returned False,
      \<lparr> accuracy = 1 / 1000, consTol = 1, projectEveryStep = 0,
        constraintErrors = [0], projectorCalls = 1 \<rparr>,
      \<lparr> yErrEst = [1 / 2000], errOrder = 2, numIterations = 1 \<rparr>)"
    using C6_projection_decision [OF example_decision_reached [OF big],
            where p = "exampleProjector (Threw (OtherException ''projection failed''))"
              and po1 = "Returned ()" and every1 = 0]
    by (simp add: evals)
  have every: "AbstractIntegratorRep_attemptDAEStep
     (exampleIntegrator (Some (exampleODE (Returned True) [1 / 1000] 2 [1 / 2])) (Returned ()))
     (exampleRep 1 1) exampleArgs exampleRefs
   = (Returned True,
      \<lparr> accuracy = 1 / 1000, consTol = 1, projectEveryStep = 1,
        constraintErrors = [0], projectorCalls = 1 \<rparr>,
      \<lparr> yErrEst = [1 / 2000], errOrder = 2, numIterations = 1 \<rparr>)"
    using C6_projection_decision [OF example_decision_reached [OF small],
            where p = "exampleProjector (Returned ())" and po1 = "Returned ()" and every1 = 1]
    by (simp add: evals)
  have skipped: "AbstractIntegratorRep_attemptDAEStep
     (exampleIntegrator (Some (exampleODE (Returned True) [1 / 1000] 2 [1 / 2])) (Returned ()))
     (exampleRep 1 0) exampleArgs exampleRefs
   = (Returned True,
      \<lparr> accuracy = 1 / 1000, consTol = 1, projectEveryStep = 0,
        constraintErrors = [1 / 2], projectorCalls = 0 \<rparr>,
      \<lparr> yErrEst = [1 / 1000], errOrder = 2, numIterations = 1 \<rparr>)"
    using C6_projection_decision [OF example_decision_reached [OF small],
            where p = "exampleProjector (Returned ())" and po1 = "Returned ()" and every1 = 0]
    by (simp add: evals)
  show ?thesis
    using projected failed every skipped by simp
qed

text \<open>
  Claim C7: whatever exception \<open>e\<close> the ODE formula throws, the default \<^verbatim>\<open>attemptDAEStep\<close>
  catches it and returns false; the exception does not reach the caller.
\<close>

theorem C7_ode_exception_caught:
  assumes "attemptODEStep env this args (refs\<lparr>numIterations := 1\<rparr>) = (Threw e, this1, refs1)"
  shows "AbstractIntegratorRep_attemptDAEStep env this args refs = (Returned False, this1, refs1)"
  using assms
  by (simp add: AbstractIntegratorRep_attemptDAEStep_def)

theorem C7_ode_exception_caught_witness:
  "AbstractIntegratorRep_attemptDAEStep
     (exampleIntegrator
        (Some (exampleODE (Threw (OtherException ''singular matrix'')) [1 / 1000] 2 [3 / 2]))
        (Returned ()))
     (exampleRep 1 1) exampleArgs exampleRefs
   = (Returned False,
      \<lparr> accuracy = 1 / 1000, consTol = 1, projectEveryStep = 1,
        constraintErrors = [3 / 2], projectorCalls = 0 \<rparr>,
      \<lparr> yErrEst = [1 / 1000], errOrder = 2, numIterations = 1 \<rparr>)"
proof -
  let ?env = "exampleIntegrator
        (Some (exampleODE (Threw (OtherException ''singular matrix'')) [1 / 1000] 2 [3 / 2]))
        (Returned ())"
  have ode: "attemptODEStep ?env (exampleRep 1 1) exampleArgs (exampleRefs\<lparr>numIterations := 1\<rparr>)
               = (Threw (OtherException ''singular matrix''),
                  exampleRep 1 1\<lparr>constraintErrors := [3 / 2]\<rparr>,
                  exampleRefs\<lparr>numIterations := 1, yErrEst := [1 / 1000], errOrder := 2\<rparr>)"
    by (simp add: example_attemptODEStep)
  show ?thesis
    using C7_ode_exception_caught [OF ode]
    by (simp add: exampleRep_def exampleRefs_def)
qed

text \<open>
  Claim C8: the default \<^verbatim>\<open>attemptDAEStep\<close> sets \<^verbatim>\<open>numIterations\<close> to 1 before it consults the
  ODE formula, so the value the caller passed in plays no part, and with an ODE formula that
  never writes \<^verbatim>\<open>numIterations\<close> the step attempt reports \<^verbatim>\<open>numIterations = 1\<close>.
\<close>

theorem C8_numIterations_one:
  assumes "\<forall>s a x. numIterations (snd (snd (attemptODEStep env s a x))) = numIterations x"
  shows "AbstractIntegratorRep_attemptDAEStep env this args refs
           = AbstractIntegratorRep_attemptDAEStep env this args (refs\<lparr>numIterations := 1\<rparr>)
         \<and> numIterations (snd (snd (AbstractIntegratorRep_attemptDAEStep env this args refs))) = 1"
proof -
  obtain out this1 refs1 where
    ode: "attemptODEStep env this args (refs\<lparr>numIterations := 1\<rparr>) = (out, this1, refs1)"
    by (cases "attemptODEStep env this args (refs\<lparr>numIterations := 1\<rparr>)") auto
  have "numIterations (snd (snd (attemptODEStep env this args (refs\<lparr>numIterations := 1\<rparr>))))
          = numIterations (refs\<lparr>numIterations := 1\<rparr>)"
    using assms by blast
  then have one: "numIterations refs1 = 1"
    by (simp add: ode)
  have reported:
    "numIterations (snd (snd (AbstractIntegratorRep_attemptDAEStep env this args refs))) = 1"
    using ode one
    by (simp add: AbstractIntegratorRep_attemptDAEStep_def Let_def
          split: Outcome.splits prod.splits option.splits)
  have initialised: "AbstractIntegratorRep_attemptDAEStep env this args refs
           = AbstractIntegratorRep_attemptDAEStep env this args (refs\<lparr>numIterations := 1\<rparr>)"
    by (simp add: AbstractIntegratorRep_attemptDAEStep_def)
  show ?thesis
    using reported initialised by simp
qed

theorem C8_numIterations_one_witness:
  "numIterations exampleRefs = 7
   \<and> numIterations (snd (snd (AbstractIntegratorRep_attemptDAEStep
        (exampleIntegrator (Some (exampleODE (Returned True) [1 / 1000] 2 [1 / 2])) (Returned ()))
        (exampleRep 1 0) exampleArgs exampleRefs))) = 1"
proof -
  let ?env = "exampleIntegrator (Some (exampleODE (Returned True) [1 / 1000] 2 [1 / 2])) (Returned ())"
  have keeps: "\<forall>s a x. numIterations (snd (snd (attemptODEStep ?env s a x))) = numIterations x"
    by (simp add: example_attemptODEStep)
  show ?thesis
    using C8_numIterations_one [OF keeps, THEN conjunct2, of "exampleRep 1 0" exampleArgs exampleRefs]
    by (simp add: exampleRefs_def)
qed

section \<open>Properties of the analytic geometry representations\<close>

lemma Pi_eq_pi: "Pi = pi"
  by (simp add: Pi_def)

lemma calcVolume_formula:
  "calcVolume \<lparr> myHandle = h, r = rad \<rparr> = (4 / 3) * pi * rad ^ 3"
  by (simp add: calcVolume_def Pi_eq_pi power3_eq_cube)

text \<open>The circle's constructor stores its argument: the sibling of the sphere's constructor.\<close>

lemma AnalyticCircleRep_ctor_radius:
  "0 < rad \<Longrightarrow>
     map_sum id AnalyticCircleRep_getRadius (AnalyticCircleRep_ctor NDEBUG rad) = Inr rad"
  by (simp add: AnalyticCircleRep_ctor_def AnalyticCircleRep_getRadius_def)

text \<open>
  Claim C9: constructing an \<^verbatim>\<open>AnalyticSphereRep\<close> from \<open>rad > 0\<close> should give a sphere whose
  \<^verbatim>\<open>getRadius()\<close> is \<open>rad\<close> and whose \<^verbatim>\<open>calcVolume()\<close> is \<open>(4/3) * pi * rad ^ 3\<close>. The
  constructor never reads \<open>rad\<close>: built from \<open>rad = 2\<close> over storage that held 1, the sphere
  has radius 1 and volume \<open>(4/3) * pi\<close>, and over storage that held 0 the assertion fails.
\<close>

theorem C9_sphere_ctor_ignores_rad:
  "AnalyticSphereRep_ctor NDEBUG indeterminate rad = AnalyticSphereRep_ctor NDEBUG indeterminate 0
   \<and> map_sum id getRadius (AnalyticSphereRep_ctor NDEBUG 1 2) = Inr 1
   \<and> map_sum id calcVolume (AnalyticSphereRep_ctor NDEBUG 1 2) = Inr ((4 / 3) * pi)
   \<and> AnalyticSphereRep_ctor False 0 2 = Inl AssertionFailed"
  by (simp add: AnalyticSphereRep_ctor_def getRadius_def calcVolume_def Pi_eq_pi)







end
